theory Spec2Isabelle
  imports Main "HOL-Library.Word"
begin

unbundle bit_operations_syntax

section \<open>The wire protocol of eth/protocols/eth/protocol.go\<close>

text \<open>
  A shallow embedding of \<^verbatim>\<open>src/eth/protocols/eth/protocol.go\<close>: the message
  registry, the kind codes, the packet catalogue with its \<^verbatim>\<open>Name\<close> and
  \<^verbatim>\<open>Kind\<close> methods, the two \<^verbatim>\<open>Unpack\<close> projections, the eth/66
  envelopes and the codec of the origin selector \<^verbatim>\<open>HashOrNumber\<close>.
\<close>

subsection \<open>Basic types\<close>

type_synonym byte = "8 word"
type_synonym uint64 = "64 word"

text \<open>
  Modelled from the spec: \<^verbatim>\<open>common.Hash\<close>, whose package is not among the sources;
  the spec gives it as a fixed-width hash of 32 bytes. It is a 256-bit word whose
  big-endian bytes are the 32 bytes, so that every value of the type is a well-formed hash
  and the zero value \<^verbatim>\<open>common.Hash{}\<close> is \<open>0\<close>.
\<close>

type_synonym Hash = "256 word"

subsection \<open>Message registry\<close>

definition ETH65 :: nat where
  "ETH65 = 65"

definition ETH66 :: nat where
  "ETH66 = 66"

definition c_ProtocolName :: string where
  "c_ProtocolName = ''quai''"

text \<open>\<^verbatim>\<open>var ProtocolVersions = []uint{ETH66, ETH65}\<close> (first is primary).\<close>

definition ProtocolVersions :: "nat list" where
  "ProtocolVersions = [ETH66, ETH65]"

text \<open>
  \<^verbatim>\<open>var protocolLengths = map[uint]uint64{ETH66: 21, ETH65: 19}\<close>, as a partial
  map: a version that is not a key has no entry.
\<close>

definition protocolLengths :: "nat \<rightharpoonup> uint64" where
  "protocolLengths = [ETH66 \<mapsto> 21, ETH65 \<mapsto> 19]"

definition maxMessageSize :: nat where
  "maxMessageSize = 10 * 1024 * 1024"

subsection \<open>Message kind codes\<close>

definition StatusMsg :: byte where "StatusMsg = 0x00"
definition NewBlockHashesMsg :: byte where "NewBlockHashesMsg = 0x01"
definition TransactionsMsg :: byte where "TransactionsMsg = 0x02"
definition GetBlockHeadersMsg :: byte where "GetBlockHeadersMsg = 0x03"
definition BlockHeadersMsg :: byte where "BlockHeadersMsg = 0x04"
definition GetBlockBodiesMsg :: byte where "GetBlockBodiesMsg = 0x05"
definition BlockBodiesMsg :: byte where "BlockBodiesMsg = 0x06"
definition NewBlockMsg :: byte where "NewBlockMsg = 0x07"
definition GetNodeDataMsg :: byte where "GetNodeDataMsg = 0x0d"
definition NodeDataMsg :: byte where "NodeDataMsg = 0x0e"
definition GetReceiptsMsg :: byte where "GetReceiptsMsg = 0x0f"
definition ReceiptsMsg :: byte where "ReceiptsMsg = 0x10"
definition NewPooledTransactionHashesMsg :: byte where "NewPooledTransactionHashesMsg = 0x08"
definition GetPooledTransactionsMsg :: byte where "GetPooledTransactionsMsg = 0x09"
definition PooledTransactionsMsg :: byte where "PooledTransactionsMsg = 0x0a"
definition GetBlockMsg :: byte where "GetBlockMsg = 0x0b"
definition PendingEtxsMsg :: byte where "PendingEtxsMsg = 0x11"
definition GetOnePendingEtxsMsg :: byte where "GetOnePendingEtxsMsg = 0x12"
definition PendingEtxsRollupMsg :: byte where "PendingEtxsRollupMsg = 0x13"
definition GetOnePendingEtxsRollupMsg :: byte where "GetOnePendingEtxsRollupMsg = 0x14"

subsection \<open>Errors\<close>

text \<open>
  The error values of the \<^verbatim>\<open>var (...)\<close> block, one constructor each
  (\<^verbatim>\<open>errors.New\<close> makes a value distinct from every other), the two errors that
  \<^verbatim>\<open>EncodeRLP\<close> and \<^verbatim>\<open>DecodeRLP\<close> build with \<^verbatim>\<open>fmt.Errorf\<close>, carrying
  the values they print, and the errors of the generic codec.
\<close>

datatype error =
    errNoStatusMsg
  | errMsgTooLarge
  | errDecode
  | errInvalidMsgCode
  | errProtocolVersionMismatch
  | errNetworkIDMismatch
  | errGenesisMismatch
  | errForkIDRejected
  | errLocationMismatch
  | errBothOrigin Hash uint64
  | errInvalidOriginSize nat
  | EOF
  | EOL
  | ErrUnexpectedEOF
  | ErrExpectedString
  | ErrCanonInt
  | ErrCanonSize
  | ErrElemTooLarge
  | ErrValueTooLarge
  | errUintOverflow
  | decodeError string

text \<open>
  The text each error of the \<^verbatim>\<open>var (...)\<close> block is made with by
  \<^verbatim>\<open>errors.New\<close>; the other errors have no fixed text in this file.
\<close>

fun Error :: "error \<Rightarrow> string option" where
  "Error errNoStatusMsg = Some ''no status message''"
| "Error errMsgTooLarge = Some ''message too long''"
| "Error errDecode = Some ''invalid message''"
| "Error errInvalidMsgCode = Some ''invalid message code''"
| "Error errProtocolVersionMismatch = Some ''protocol version mismatch''"
| "Error errNetworkIDMismatch = Some ''network ID mismatch''"
| "Error errGenesisMismatch = Some ''genesis mismatch''"
| "Error errForkIDRejected = Some ''fork ID rejected''"
| "Error errLocationMismatch = Some ''location mismatch''"
| "Error _ = None"

subsection \<open>Block announcements and block bodies\<close>

text \<open>
  One element of \<^verbatim>\<open>NewBlockHashesPacket\<close>, the anonymous
  \<^verbatim>\<open>struct { Hash common.Hash; Number uint64 }\<close>.
\<close>

record NewBlockHashesElem =
  Hash :: Hash
  Number :: uint64

type_synonym NewBlockHashesPacket = "NewBlockHashesElem list"

text \<open>
  \<^verbatim>\<open>BlockBody\<close>. The type variables stand for \<^verbatim>\<open>*types.Transaction\<close> and
  \<^verbatim>\<open>*types.Header\<close>, which this file only copies; \<^verbatim>\<open>types.BlockManifest\<close> is
  a list of hashes. A nil slice and an empty slice are both \<open>[]\<close>.
\<close>

record ('tx, 'hdr) BlockBody =
  Transactions :: "'tx list"
  Uncles :: "'hdr list"
  ExtTransactions :: "'tx list"
  SubManifest :: "Hash list"

text \<open>\<^verbatim>\<open>BlockBodiesPacket\<close> is \<^verbatim>\<open>[]*BlockBody\<close>: an element may be nil (\<open>None\<close>).\<close>

type_synonym ('tx, 'hdr) BlockBodies = "('tx, 'hdr) BlockBody option list"

text \<open>What stops a Go function short of its return.\<close>

datatype panic =
    NilDereference
  | IndexOutOfRange nat nat

text \<open>\<^verbatim>\<open>xs[i] = v\<close> on a slice: a panic when \<open>i\<close> is not below the length.\<close>

definition set_index :: "'a list \<Rightarrow> nat \<Rightarrow> 'a \<Rightarrow> panic + 'a list" where
  "set_index xs i v = (if i < length xs then Inr (xs[i := v]) else Inl (IndexOutOfRange i (length xs)))"

text \<open>
  The loop of \<^verbatim>\<open>NewBlockHashesPacket.Unpack\<close>,
  \<^verbatim>\<open>for i, body := range *p { hashes[i], numbers[i] = body.Hash, body.Number }\<close>,
  from index \<open>i\<close> on the elements still to visit.
\<close>

fun NewBlockHashesPacket_Unpack_loop ::
  "nat \<Rightarrow> NewBlockHashesElem list \<Rightarrow> Hash list \<times> uint64 list \<Rightarrow> panic + Hash list \<times> uint64 list" where
  "NewBlockHashesPacket_Unpack_loop i [] (hashes, numbers) = Inr (hashes, numbers)"
| "NewBlockHashesPacket_Unpack_loop i (body # rest) (hashes, numbers) =
     (case set_index hashes i (Hash body) of
        Inl e \<Rightarrow> Inl e
      | Inr hashes' \<Rightarrow>
          (case set_index numbers i (Number body) of
             Inl e \<Rightarrow> Inl e
           | Inr numbers' \<Rightarrow> NewBlockHashesPacket_Unpack_loop (Suc i) rest (hashes', numbers')))"

text \<open>\<^verbatim>\<open>make([]T, len(*p))\<close> gives \<open>len(*p)\<close> zero values.\<close>

definition NewBlockHashesPacket_Unpack ::
  "NewBlockHashesPacket \<Rightarrow> panic + Hash list \<times> uint64 list" where
  "NewBlockHashesPacket_Unpack p =
     NewBlockHashesPacket_Unpack_loop 0 p (replicate (length p) 0, replicate (length p) 0)"

text \<open>
  The loop of \<^verbatim>\<open>BlockBodiesPacket.Unpack\<close>. Reading a field of a nil
  \<^verbatim>\<open>*BlockBody\<close> panics before anything is stored.
\<close>

fun BlockBodiesPacket_Unpack_loop ::
  "nat \<Rightarrow> ('tx, 'hdr) BlockBodies
   \<Rightarrow> 'tx list list \<times> 'hdr list list \<times> 'tx list list \<times> Hash list list
   \<Rightarrow> panic + 'tx list list \<times> 'hdr list list \<times> 'tx list list \<times> Hash list list" where
  "BlockBodiesPacket_Unpack_loop i [] (txset, uncleset, etxset, manifest) =
     Inr (txset, uncleset, etxset, manifest)"
| "BlockBodiesPacket_Unpack_loop i (None # rest) (txset, uncleset, etxset, manifest) =
     Inl NilDereference"
| "BlockBodiesPacket_Unpack_loop i (Some body # rest) (txset, uncleset, etxset, manifest) =
     (case set_index txset i (Transactions body) of
        Inl e \<Rightarrow> Inl e
      | Inr txset' \<Rightarrow>
     (case set_index uncleset i (Uncles body) of
        Inl e \<Rightarrow> Inl e
      | Inr uncleset' \<Rightarrow>
     (case set_index etxset i (ExtTransactions body) of
        Inl e \<Rightarrow> Inl e
      | Inr etxset' \<Rightarrow>
     (case set_index manifest i (SubManifest body) of
        Inl e \<Rightarrow> Inl e
      | Inr manifest' \<Rightarrow>
          BlockBodiesPacket_Unpack_loop (Suc i) rest (txset', uncleset', etxset', manifest')))))"

definition BlockBodiesPacket_Unpack ::
  "('tx, 'hdr) BlockBodies
   \<Rightarrow> panic + 'tx list list \<times> 'hdr list list \<times> 'tx list list \<times> Hash list list" where
  "BlockBodiesPacket_Unpack p =
     BlockBodiesPacket_Unpack_loop 0 p
       (replicate (length p) [], replicate (length p) [], replicate (length p) [],
        replicate (length p) [])"

subsection \<open>The generic codec (package rlp)\<close>

text \<open>
  Package \<^verbatim>\<open>rlp\<close> of the repository (\<^verbatim>\<open>rlp.Encode\<close>, \<^verbatim>\<open>rlp.Stream\<close>) is not
  among the sources. The definitions of this subsection stand for the part of it that
  \<^verbatim>\<open>HashOrNumber\<close> calls: the RLP encoding of a \<^verbatim>\<open>uint64\<close> and of a 32-byte
  array, and a stream that reports the kind and size of the next value before decoding it.
\<close>

text \<open>
  Modelled from the spec: the bytes of a hash, \<^verbatim>\<open>h[:]\<close>, and the hash made of 32
  bytes, for the hash type of the absent package \<^verbatim>\<open>common\<close>: the big-endian bytes
  of a number at a fixed width, and the number a byte string is in big-endian.
\<close>

fun be_bytes :: "nat \<Rightarrow> nat \<Rightarrow> byte list" where
  "be_bytes 0 n = []"
| "be_bytes (Suc k) n = be_bytes k (n div 256) @ [of_nat n]"

definition be_val :: "byte list \<Rightarrow> nat" where
  "be_val bs = foldl (\<lambda>a b. a * 256 + unat b) 0 bs"

definition Hash_Bytes :: "Hash \<Rightarrow> byte list" where
  "Hash_Bytes h = be_bytes 32 (unat h)"

definition BytesToHash :: "byte list \<Rightarrow> Hash" where
  "BytesToHash bs = of_nat (be_val bs)"

text \<open>
  Modelled from the spec: \<^verbatim>\<open>putint\<close> of package rlp, which is not among the sources;
  the "generic numeric encoding" writes an integer as its big-endian bytes without leading
  zero bytes (one byte for a value below 256).
\<close>

function putint :: "nat \<Rightarrow> byte list" where
  "putint i = (if i < 256 then [of_nat i] else putint (i div 256) @ [of_nat i])"
  by pat_completeness auto
termination
  by (relation "measure id") auto

declare putint.simps [simp del]

text \<open>
  Modelled from the spec: the "generic numeric encoding" of a \<^verbatim>\<open>uint64\<close> by package
  rlp, which is not among the sources. Zero is the empty string \<open>0x80\<close>, a value below 128
  is its own single byte, any other value is a string of its big-endian bytes behind the
  header \<open>0x80 + length\<close>.
\<close>

definition encodeUint :: "uint64 \<Rightarrow> byte list" where
  "encodeUint i =
     (if i = 0 then [0x80]
      else if i < 128 then [ucast i]
      else (let s = putint (unat i) in (0x80 + of_nat (length s)) # s))"

text \<open>
  Modelled from the spec: the "generic fixed-width-bytes encoding" of a 32-byte array by
  package rlp, which is not among the sources: the string header \<open>0x80 + 32\<close> and the 32
  bytes.
\<close>

definition encodeHash :: "Hash \<Rightarrow> byte list" where
  "encodeHash h = (0x80 + 32) # Hash_Bytes h"

text \<open>
  Modelled from the spec: an \<^verbatim>\<open>io.Writer\<close>, which the sources only name. It keeps what
  was written, and a writer that is broken answers every write with its error.
\<close>

record Writer =
  written :: "byte list"
  broken :: "error option"

definition Write :: "Writer \<Rightarrow> byte list \<Rightarrow> error option \<times> Writer" where
  "Write w bs =
     (case broken w of
        Some e \<Rightarrow> (Some e, w)
      | None \<Rightarrow> (None, w\<lparr>written := written w @ bs\<rparr>))"

text \<open>
  Modelled from the spec: \<^verbatim>\<open>rlp.Encode(w, val)\<close> of package rlp, which is not among the
  sources, at the two types \<^verbatim>\<open>HashOrNumber.EncodeRLP\<close> passes: it writes the encoding of
  the value to \<open>w\<close> and returns the writer's error.
\<close>

definition rlp_Encode_uint64 :: "Writer \<Rightarrow> uint64 \<Rightarrow> error option \<times> Writer" where
  "rlp_Encode_uint64 w i = Write w (encodeUint i)"

definition rlp_Encode_Hash :: "Writer \<Rightarrow> Hash \<Rightarrow> error option \<times> Writer" where
  "rlp_Encode_Hash w h = Write w (encodeHash h)"

text \<open>
  Modelled from the spec: \<^verbatim>\<open>rlp.Kind\<close> of package rlp, which is not among the
  sources: what the next value of a stream is, a single byte, a string or a list.
\<close>

datatype Kind_rlp = Byte | String | List

text \<open>
  Modelled from the spec: \<^verbatim>\<open>rlp.Stream\<close> of package rlp, which is not among the sources.
  \<open>input\<close> holds the bytes not yet read, up to the end of the enclosing list when
  \<open>inList\<close> holds and of the whole input otherwise.
\<close>

record Stream =
  input :: "byte list"
  inList :: bool

text \<open>
  Modelled from the spec: \<^verbatim>\<open>Stream.readUint\<close> of package rlp, which is not among the
  sources: a big-endian integer of \<open>sz\<close> bytes, which must not start with a zero byte
  when it has more than one.
\<close>

definition readUint :: "nat \<Rightarrow> byte list \<Rightarrow> error + nat \<times> byte list" where
  "readUint sz bs =
     (if sz = 0 then Inr (0, bs)
      else if sz = 1 then
        (case bs of [] \<Rightarrow> Inl ErrUnexpectedEOF | b # rest \<Rightarrow> Inr (unat b, rest))
      else if length bs < sz then Inl ErrUnexpectedEOF
      else if hd bs = 0 then Inl ErrCanonSize
      else Inr (be_val (take sz bs), drop sz bs))"

text \<open>
  Modelled from the spec: \<^verbatim>\<open>Stream.readKind\<close> of package rlp, which is not among the
  sources; it reads the "size tag" of the next value: its kind, the size of its content,
  the value of a single byte, and the bytes behind the tag.
\<close>

fun readKind :: "byte list \<Rightarrow> error + (Kind_rlp \<times> nat \<times> byte) \<times> byte list" where
  "readKind [] = Inl ErrUnexpectedEOF"
| "readKind (b # bs) =
     (if b < 0x80 then Inr ((Byte, 0, b), bs)
      else if b < 0xB8 then Inr ((String, unat (b - 0x80), 0), bs)
      else if b < 0xC0 then
        (case readUint (unat (b - 0xB7)) bs of
           Inl e \<Rightarrow> Inl e
         | Inr (sz, rest) \<Rightarrow>
             if sz < 56 then Inl ErrCanonSize else Inr ((String, sz, 0), rest))
      else if b < 0xF8 then Inr ((List, unat (b - 0xC0), 0), bs)
      else
        (case readUint (unat (b - 0xF7)) bs of
           Inl e \<Rightarrow> Inl e
         | Inr (sz, rest) \<Rightarrow>
             if sz < 56 then Inl ErrCanonSize else Inr ((List, sz, 0), rest)))"

text \<open>
  Modelled from the spec: the size tag \<^verbatim>\<open>Stream.Kind\<close> of package rlp (not among the
  sources) reads and keeps: an error at the end of the input, for a malformed tag, and for
  a size beyond the bytes that are left.
\<close>

definition header :: "Stream \<Rightarrow> error + Kind_rlp \<times> nat \<times> byte \<times> byte list" where
  "header s =
     (if input s = [] then Inl (if inList s then EOL else EOF)
      else
        (case readKind (input s) of
           Inl e \<Rightarrow> Inl e
         | Inr ((kind, sz, byteval), rest) \<Rightarrow>
             if length rest < sz
             then Inl (if inList s then ErrElemTooLarge else ErrValueTooLarge)
             else Inr (kind, sz, byteval, rest)))"

text \<open>
  Modelled from the spec: \<^verbatim>\<open>Stream.Kind\<close> of package rlp, which is not among the
  sources: the kind and the size of the next value, or an error; the stream stays before
  the value.
\<close>

definition Stream_Kind :: "Stream \<Rightarrow> error + Kind_rlp \<times> nat" where
  "Stream_Kind s =
     (case header s of
        Inl e \<Rightarrow> Inl e
      | Inr (kind, sz, byteval, rest) \<Rightarrow> Inr (kind, sz))"

text \<open>
  Modelled from the spec: \<^verbatim>\<open>Stream.Decode\<close> of package rlp (not among the sources) into
  a \<^verbatim>\<open>*uint64\<close>: a single byte other than zero, or a string of at most 8 bytes in
  canonical form; the value and the stream behind it.
\<close>

definition Stream_Decode_uint64 :: "Stream \<Rightarrow> error + uint64 \<times> Stream" where
  "Stream_Decode_uint64 s =
     (case header s of
        Inl e \<Rightarrow> Inl e
      | Inr (kind, sz, byteval, rest) \<Rightarrow>
          (case kind of
             Byte \<Rightarrow>
               if byteval = 0 then Inl ErrCanonInt
               else Inr (ucast byteval, s\<lparr>input := rest\<rparr>)
           | String \<Rightarrow>
               if 8 < sz then Inl errUintOverflow
               else
                 (case readUint sz rest of
                    Inl e \<Rightarrow> Inl (if e = ErrCanonSize then ErrCanonInt else e)
                  | Inr (v, rest') \<Rightarrow>
                      if 0 < sz \<and> v < 128 then Inl ErrCanonSize
                      else Inr (of_nat v, s\<lparr>input := rest'\<rparr>))
           | List \<Rightarrow> Inl ErrExpectedString))"

text \<open>
  Modelled from the spec: \<^verbatim>\<open>Stream.Decode\<close> of package rlp (not among the sources) into
  a \<^verbatim>\<open>*common.Hash\<close>: a string of exactly 32 bytes; the hash and the stream behind it.
\<close>

definition Stream_Decode_Hash :: "Stream \<Rightarrow> error + Hash \<times> Stream" where
  "Stream_Decode_Hash s =
     (case header s of
        Inl e \<Rightarrow> Inl e
      | Inr (kind, sz, byteval, rest) \<Rightarrow>
          (case kind of
             Byte \<Rightarrow> Inl (decodeError ''input string too short'')
           | String \<Rightarrow>
               if 32 < sz then Inl (decodeError ''input string too long'')
               else if sz < 32 then Inl (decodeError ''input string too short'')
               else Inr (BytesToHash (take 32 rest), s\<lparr>input := drop 32 rest\<rparr>)
           | List \<Rightarrow> Inl ErrExpectedString))"

subsection \<open>The origin selector\<close>

record HashOrNumber =
  Hash :: Hash
  Number :: uint64

text \<open>
  \<^verbatim>\<open>HashOrNumber.EncodeRLP\<close>: the error it returns and the writer afterwards.
\<close>

definition EncodeRLP :: "HashOrNumber \<Rightarrow> Writer \<Rightarrow> error option \<times> Writer" where
  "EncodeRLP hn w =
     (if Hash hn = 0 then rlp_Encode_uint64 w (Number hn)
      else if Number hn \<noteq> 0 then (Some (errBothOrigin (Hash hn) (Number hn)), w)
      else rlp_Encode_Hash w (Hash hn))"

text \<open>
  \<^verbatim>\<open>HashOrNumber.DecodeRLP\<close>: the error it returns, the receiver afterwards and the
  stream afterwards. A branch clears one field before it decodes into the other, so the
  cleared field stays cleared when the decoding fails; in this model a failed decoding
  leaves its target and the stream as they were.
\<close>

definition DecodeRLP :: "HashOrNumber \<Rightarrow> Stream \<Rightarrow> error option \<times> HashOrNumber \<times> Stream" where
  "DecodeRLP hn s =
     (case Stream_Kind s of
        Inl err \<Rightarrow> (Some err, hn, s)
      | Inr (kind, sz) \<Rightarrow>
          if sz = 32 then
            (let hn' = hn\<lparr>Number := 0\<rparr> in
             case Stream_Decode_Hash s of
               Inl err \<Rightarrow> (Some err, hn', s)
             | Inr (h, s') \<Rightarrow> (None, hn'\<lparr>Hash := h\<rparr>, s'))
          else if sz \<le> 8 then
            (let hn' = hn\<lparr>Hash := 0\<rparr> in
             case Stream_Decode_uint64 s of
               Inl err \<Rightarrow> (Some err, hn', s)
             | Inr (n, s') \<Rightarrow> (None, hn'\<lparr>Number := n\<rparr>, s'))
          else (Some (errInvalidOriginSize sz), hn, s))"

subsection \<open>Payloads and their eth/66 envelopes\<close>

text \<open>
  Types of other packages that this file holds and never looks into:
  \<^verbatim>\<open>types.Transaction\<close>, \<^verbatim>\<open>types.Header\<close>, \<^verbatim>\<open>types.Receipt\<close>,
  \<^verbatim>\<open>types.PendingEtxs\<close> and \<^verbatim>\<open>types.PendingEtxsRollup\<close>. A pointer to one of
  them is an option, nil being \<open>None\<close>; \<^verbatim>\<open>rlp.RawValue\<close> is a byte string.
\<close>

typedecl Transaction
typedecl Header
typedecl Receipt
typedecl PendingEtxs
typedecl PendingEtxsRollup

record GetBlockHeadersPacket =
  Origin :: HashOrNumber
  Amount :: uint64
  Dom :: bool
  Reverse :: bool
  To :: uint64
  Skip :: uint64

type_synonym BlockHeadersPacket = "Header option list"
type_synonym GetBlockBodiesPacket = "Hash list"
type_synonym BlockBodiesPacket = "(Transaction option, Header option) BlockBodies"
type_synonym BlockBodiesRLPPacket = "byte list list"
type_synonym GetNodeDataPacket = "Hash list"
type_synonym NodeDataPacket = "byte list list"
type_synonym GetReceiptsPacket = "Hash list"
type_synonym ReceiptsPacket = "Receipt option list list"
type_synonym ReceiptsRLPPacket = "byte list list"
type_synonym GetPooledTransactionsPacket = "Hash list"
type_synonym PooledTransactionsPacket = "Transaction option list"
type_synonym PooledTransactionsRLPPacket = "byte list list"

record GetBlockPacket =
  Hash :: Hash

record GetOnePendingEtxsPacket =
  Hash :: Hash

record GetOnePendingEtxsRollupPacket =
  Hash :: Hash

record PendingEtxsPacket =
  PendingEtxs :: PendingEtxs

record PendingEtxsRollupPacket =
  PendingEtxsRollup :: PendingEtxsRollup

text \<open>
  The envelopes of eth/66: a struct of the field \<^verbatim>\<open>RequestId uint64\<close> followed by the
  embedded payload, whose field bears the name of the payload's type.
  \<^verbatim>\<open>GetBlockHeadersPacket66\<close> embeds a pointer, which may be nil; the others embed the
  payload itself.
\<close>

record GetBlockHeadersPacket66 =
  RequestId :: uint64
  GetBlockHeadersPacket :: "GetBlockHeadersPacket option"

record BlockHeadersPacket66 =
  RequestId :: uint64
  BlockHeadersPacket :: "BlockHeadersPacket"

record GetBlockBodiesPacket66 =
  RequestId :: uint64
  GetBlockBodiesPacket :: "GetBlockBodiesPacket"

record BlockBodiesPacket66 =
  RequestId :: uint64
  BlockBodiesPacket :: "BlockBodiesPacket"

record BlockBodiesRLPPacket66 =
  RequestId :: uint64
  BlockBodiesRLPPacket :: "BlockBodiesRLPPacket"

record GetNodeDataPacket66 =
  RequestId :: uint64
  GetNodeDataPacket :: "GetNodeDataPacket"

record NodeDataPacket66 =
  RequestId :: uint64
  NodeDataPacket :: "NodeDataPacket"

record GetReceiptsPacket66 =
  RequestId :: uint64
  GetReceiptsPacket :: "GetReceiptsPacket"

record ReceiptsPacket66 =
  RequestId :: uint64
  ReceiptsPacket :: "ReceiptsPacket"

record ReceiptsRLPPacket66 =
  RequestId :: uint64
  ReceiptsRLPPacket :: "ReceiptsRLPPacket"

record GetPooledTransactionsPacket66 =
  RequestId :: uint64
  GetPooledTransactionsPacket :: "GetPooledTransactionsPacket"

record PooledTransactionsPacket66 =
  RequestId :: uint64
  PooledTransactionsPacket :: "PooledTransactionsPacket"

record PooledTransactionsRLPPacket66 =
  RequestId :: uint64
  PooledTransactionsRLPPacket :: "PooledTransactionsRLPPacket"

record GetBlockPacket66 =
  RequestId :: uint64
  GetBlockPacket :: "GetBlockPacket"

record GetOnePendingEtxsPacket66 =
  RequestId :: uint64
  GetOnePendingEtxsPacket :: "GetOnePendingEtxsPacket"

record GetOnePendingEtxsRollupPacket66 =
  RequestId :: uint64
  GetOnePendingEtxsRollupPacket :: "GetOnePendingEtxsRollupPacket"

record PendingEtxsPacket66 =
  RequestId :: uint64
  PendingEtxsPacket :: "PendingEtxsPacket"

record PendingEtxsRollupPacket66 =
  RequestId :: uint64
  PendingEtxsRollupPacket :: "PendingEtxsRollupPacket"

subsection \<open>The size cap on a message\<close>

text \<open>
  Modelled from the spec: a message as the transport hands it over (the transport is not
  among the sources): its kind code, its serialized size and its payload.
\<close>

record Msg =
  Code :: uint64
  Size :: nat
  Payload :: "byte list"

text \<open>
  Modelled from the spec: the handler of an incoming message, which is not among the
  sources (they hold the cap \<^verbatim>\<open>maxMessageSize\<close> and the error
  \<^verbatim>\<open>errMsgTooLarge\<close>, not their use). The spec: "any single protocol message's
  serialized size exceeding 10 MiB must be rejected before decoding is attempted".
  \<open>decode\<close> stands for what the handler does with a message that passed the check.
\<close>

definition handleMessage :: "(Msg \<Rightarrow> error + 'a) \<Rightarrow> Msg \<Rightarrow> error + 'a" where
  "handleMessage decode msg =
     (if maxMessageSize < Size msg then Inl errMsgTooLarge else decode msg)"

subsection \<open>Packet catalogue: the payload types and their methods\<close>

text \<open>
  The payload types the file declares, by name (the eth/66 envelopes are above). A method
  of the file has an unnamed receiver, \<^verbatim>\<open>func (*StatusPacket) Name() string\<close>, so
  what it returns is fixed by the receiver's type and no value of the receiver can change
  it; the model looks a method up by type, and a type on which the file declares no such
  method has no entry (\<open>None\<close>).
\<close>

datatype PacketType =
    StatusPacket
  | NewBlockHashesPacket
  | TransactionsPacket
  | GetBlockHeadersPacket
  | BlockHeadersPacket
  | NewBlockPacket
  | GetBlockBodiesPacket
  | BlockBodiesPacket
  | BlockBodiesRLPPacket
  | GetNodeDataPacket
  | NodeDataPacket
  | GetReceiptsPacket
  | ReceiptsPacket
  | ReceiptsRLPPacket
  | NewPooledTransactionHashesPacket
  | GetPooledTransactionsPacket
  | PooledTransactionsPacket
  | PooledTransactionsRLPPacket
  | GetBlockPacket
  | GetOnePendingEtxsPacket
  | GetOnePendingEtxsRollupPacket
  | PendingEtxsPacket
  | PendingEtxsRollupPacket

fun Name :: "PacketType \<Rightarrow> string option" where
  "Name StatusPacket = Some ''Status''"
| "Name NewBlockHashesPacket = Some ''NewBlockHashes''"
| "Name TransactionsPacket = Some ''Transactions''"
| "Name GetBlockHeadersPacket = Some ''GetBlockHeaders''"
| "Name BlockHeadersPacket = Some ''BlockHeaders''"
| "Name GetBlockBodiesPacket = Some ''GetBlockBodies''"
| "Name BlockBodiesPacket = Some ''BlockBodies''"
| "Name NewBlockPacket = Some ''NewBlock''"
| "Name GetNodeDataPacket = Some ''GetNodeData''"
| "Name NodeDataPacket = Some ''NodeData''"
| "Name GetReceiptsPacket = Some ''GetReceipts''"
| "Name ReceiptsPacket = Some ''Receipts''"
| "Name NewPooledTransactionHashesPacket = Some ''NewPooledTransactionHashes''"
| "Name GetPooledTransactionsPacket = Some ''GetPooledTransactions''"
| "Name PooledTransactionsPacket = Some ''PooledTransactions''"
| "Name GetBlockPacket = Some ''GetBlock''"
| "Name GetOnePendingEtxsPacket = Some ''GetOnePendingEtxs''"
| "Name PendingEtxsPacket = Some ''PendingEtxs''"
| "Name PendingEtxsRollupPacket = Some ''PendingEtxsManifest''"
| "Name _ = None"

fun Kind :: "PacketType \<Rightarrow> byte option" where
  "Kind StatusPacket = Some StatusMsg"
| "Kind NewBlockHashesPacket = Some NewBlockHashesMsg"
| "Kind TransactionsPacket = Some TransactionsMsg"
| "Kind GetBlockHeadersPacket = Some GetBlockHeadersMsg"
| "Kind BlockHeadersPacket = Some BlockHeadersMsg"
| "Kind GetBlockBodiesPacket = Some GetBlockBodiesMsg"
| "Kind BlockBodiesPacket = Some BlockBodiesMsg"
| "Kind NewBlockPacket = Some NewBlockMsg"
| "Kind GetNodeDataPacket = Some GetNodeDataMsg"
| "Kind NodeDataPacket = Some NodeDataMsg"
| "Kind GetReceiptsPacket = Some GetReceiptsMsg"
| "Kind ReceiptsPacket = Some ReceiptsMsg"
| "Kind NewPooledTransactionHashesPacket = Some NewPooledTransactionHashesMsg"
| "Kind GetPooledTransactionsPacket = Some GetPooledTransactionsMsg"
| "Kind PooledTransactionsPacket = Some PooledTransactionsMsg"
| "Kind GetBlockPacket = Some GetBlockMsg"
| "Kind GetOnePendingEtxsPacket = Some GetOnePendingEtxsMsg"
| "Kind PendingEtxsPacket = Some PendingEtxsMsg"
| "Kind PendingEtxsRollupPacket = Some PendingEtxsRollupMsg"
| "Kind _ = None"

section \<open>Properties\<close>

lemmas msg_code_defs =
  StatusMsg_def NewBlockHashesMsg_def TransactionsMsg_def GetBlockHeadersMsg_def
  BlockHeadersMsg_def GetBlockBodiesMsg_def BlockBodiesMsg_def NewBlockMsg_def
  GetNodeDataMsg_def NodeDataMsg_def GetReceiptsMsg_def ReceiptsMsg_def
  NewPooledTransactionHashesMsg_def GetPooledTransactionsMsg_def PooledTransactionsMsg_def
  GetBlockMsg_def PendingEtxsMsg_def GetOnePendingEtxsMsg_def PendingEtxsRollupMsg_def
  GetOnePendingEtxsRollupMsg_def

subsection \<open>Registry\<close>

text \<open>
  C7: the registry maps the older version 65 to 19 implemented message kinds and the newer
  version 66 to 21 (and has no other entry), and the list of supported versions holds the
  newer version first, ahead of the older one.
\<close>

theorem C7_registry:
  "protocolLengths ETH65 = Some 19 \<and> protocolLengths ETH66 = Some 21
   \<and> dom protocolLengths = {ETH65, ETH66}
   \<and> ProtocolVersions = [ETH66, ETH65] \<and> hd ProtocolVersions = ETH66 \<and> ETH65 < ETH66"
  by (auto simp: protocolLengths_def ProtocolVersions_def ETH65_def ETH66_def split: if_splits)


subsection \<open>Unpack\<close>

lemma NewBlockHashesPacket_Unpack_loop_eq:
  "length hashes = i + length p \<Longrightarrow> length numbers = i + length p \<Longrightarrow>
   NewBlockHashesPacket_Unpack_loop i p (hashes, numbers) =
     Inr (take i hashes @ map NewBlockHashesElem.Hash p, take i numbers @ map NewBlockHashesElem.Number p)"
proof (induction p arbitrary: i hashes numbers)
  case Nil
  then show ?case by simp
next
  case (Cons body rest)
  have "take (Suc i) (hashes[i := NewBlockHashesElem.Hash body]) = take i hashes @ [NewBlockHashesElem.Hash body]"
    using Cons.prems by (simp add: take_Suc_conv_app_nth)
  moreover have "take (Suc i) (numbers[i := NewBlockHashesElem.Number body]) = take i numbers @ [NewBlockHashesElem.Number body]"
    using Cons.prems by (simp add: take_Suc_conv_app_nth)
  ultimately show ?case
    using Cons.prems Cons.IH [of "hashes[i := NewBlockHashesElem.Hash body]" "Suc i" "numbers[i := NewBlockHashesElem.Number body]"]
    by (simp add: set_index_def)
qed

lemma NewBlockHashesPacket_Unpack_eq:
  "NewBlockHashesPacket_Unpack p = Inr (map NewBlockHashesElem.Hash p, map NewBlockHashesElem.Number p)"
  by (simp add: NewBlockHashesPacket_Unpack_def NewBlockHashesPacket_Unpack_loop_eq)

lemma BlockBodiesPacket_Unpack_loop_eq:
  "length txset = i + length bodies \<Longrightarrow> length uncleset = i + length bodies \<Longrightarrow>
   length etxset = i + length bodies \<Longrightarrow> length manifest = i + length bodies \<Longrightarrow>
   BlockBodiesPacket_Unpack_loop i (map Some bodies) (txset, uncleset, etxset, manifest) =
     Inr (take i txset @ map Transactions bodies, take i uncleset @ map Uncles bodies,
          take i etxset @ map ExtTransactions bodies, take i manifest @ map SubManifest bodies)"
proof (induction bodies arbitrary: i txset uncleset etxset manifest)
  case Nil
  then show ?case by simp
next
  case (Cons body rest)
  show ?case
    using Cons.prems
      Cons.IH [of "txset[i := Transactions body]" "Suc i" "uncleset[i := Uncles body]"
                  "etxset[i := ExtTransactions body]" "manifest[i := SubManifest body]"]
    by (simp add: set_index_def take_Suc_conv_app_nth)
qed

lemma BlockBodiesPacket_Unpack_eq:
  "BlockBodiesPacket_Unpack (map Some bodies) =
     Inr (map Transactions bodies, map Uncles bodies, map ExtTransactions bodies, map SubManifest bodies)"
  by (simp add: BlockBodiesPacket_Unpack_def BlockBodiesPacket_Unpack_loop_eq)

text \<open>A nil element makes \<^verbatim>\<open>BlockBodiesPacket.Unpack\<close> panic: there is no body to read.\<close>

lemma BlockBodiesPacket_Unpack_loop_nil:
  "None \<in> set p \<Longrightarrow> length txset = i + length p \<Longrightarrow> length uncleset = i + length p \<Longrightarrow>
   length etxset = i + length p \<Longrightarrow> length manifest = i + length p \<Longrightarrow>
   BlockBodiesPacket_Unpack_loop i p (txset, uncleset, etxset, manifest) = Inl NilDereference"
proof (induction p arbitrary: i txset uncleset etxset manifest)
  case Nil
  then show ?case by simp
next
  case (Cons b rest)
  show ?case
  proof (cases b)
    case None
    then show ?thesis by simp
  next
    case (Some body)
    with Cons.prems have "None \<in> set rest" by auto
    then show ?thesis
      using Some Cons.prems
        Cons.IH [of "txset[i := Transactions body]" "Suc i" "uncleset[i := Uncles body]"
                  "etxset[i := ExtTransactions body]" "manifest[i := SubManifest body]"]
      by (simp add: set_index_def)
  qed
qed

text \<open>
  C5: for every announcement batch \<open>p\<close> (the empty one included),
  \<^verbatim>\<open>NewBlockHashesPacket.Unpack\<close> returns, without a panic, two sequences of the length
  of \<open>p\<close> whose elements at \<open>i\<close> are the hash and the number of entry \<open>i\<close>; and
  for every batch of bodies (a slice of non-nil pointers, \<open>map Some bodies\<close>)
  \<^verbatim>\<open>BlockBodiesPacket.Unpack\<close> returns four sequences of the length of the batch whose
  elements at \<open>i\<close> are the four fields of body \<open>i\<close>.
\<close>

theorem C5_Unpack:
  "(\<exists>hashes numbers.
      NewBlockHashesPacket_Unpack p = Inr (hashes, numbers)
      \<and> length hashes = length p \<and> length numbers = length p
      \<and> (\<forall>i<length p. hashes ! i = NewBlockHashesElem.Hash (p ! i)
                     \<and> numbers ! i = NewBlockHashesElem.Number (p ! i)))
   \<and> (\<exists>txset uncleset etxset manifest.
      BlockBodiesPacket_Unpack (map Some bodies) = Inr (txset, uncleset, etxset, manifest)
      \<and> length txset = length bodies \<and> length uncleset = length bodies
      \<and> length etxset = length bodies \<and> length manifest = length bodies
      \<and> (\<forall>i<length bodies. txset ! i = Transactions (bodies ! i)
                          \<and> uncleset ! i = Uncles (bodies ! i)
                          \<and> etxset ! i = ExtTransactions (bodies ! i)
                          \<and> manifest ! i = SubManifest (bodies ! i)))"
  by (simp add: NewBlockHashesPacket_Unpack_eq BlockBodiesPacket_Unpack_eq)

theorem C5_Unpack_witness:
  "(\<exists>hashes numbers.
      NewBlockHashesPacket_Unpack
        [\<lparr>NewBlockHashesElem.Hash = 0xAA, Number = 7\<rparr>, \<lparr>NewBlockHashesElem.Hash = 0xBB, Number = 9\<rparr>] = Inr (hashes, numbers)
      \<and> length hashes = 2 \<and> length numbers = 2
      \<and> hashes ! 0 = 0xAA \<and> numbers ! 0 = 7 \<and> hashes ! 1 = 0xBB \<and> numbers ! 1 = 9)
   \<and> (\<exists>txset uncleset etxset manifest.
      BlockBodiesPacket_Unpack
        [Some \<lparr>Transactions = [1, 2 :: nat], Uncles = [] :: nat list, ExtTransactions = [3],
               SubManifest = []\<rparr>] = Inr (txset, uncleset, etxset, manifest)
      \<and> length txset = 1 \<and> length uncleset = 1 \<and> length etxset = 1 \<and> length manifest = 1
      \<and> txset ! 0 = [1, 2] \<and> uncleset ! 0 = [] \<and> etxset ! 0 = [3] \<and> manifest ! 0 = [])"
  using C5_Unpack [of "[\<lparr>NewBlockHashesElem.Hash = 0xAA, Number = 7\<rparr>, \<lparr>NewBlockHashesElem.Hash = 0xBB, Number = 9\<rparr>]"
      "[\<lparr>Transactions = [1, 2 :: nat], Uncles = [] :: nat list, ExtTransactions = [3], SubManifest = []\<rparr>]"]
  by (auto simp: less_2_cases_iff)

lemma BlockBodiesPacket_Unpack_nil:
  "None \<in> set p \<Longrightarrow> BlockBodiesPacket_Unpack p = Inl NilDereference"
  by (simp add: BlockBodiesPacket_Unpack_def BlockBodiesPacket_Unpack_loop_nil)

subsection \<open>Kind codes and the methods of the catalogue\<close>

text \<open>
  C4: the twenty kind codes of the file, \<^verbatim>\<open>StatusMsg\<close> (0x00) to
  \<^verbatim>\<open>GetOnePendingEtxsRollupMsg\<close> (0x14), are pairwise distinct, and two payload types
  whose \<^verbatim>\<open>Kind()\<close> methods return the same code are the same type.
\<close>

theorem C4_codes_distinct:
  "distinct [StatusMsg,
             NewBlockHashesMsg,
             TransactionsMsg,
             GetBlockHeadersMsg,
             BlockHeadersMsg,
             GetBlockBodiesMsg,
             BlockBodiesMsg,
             NewBlockMsg,
             GetNodeDataMsg,
             NodeDataMsg,
             GetReceiptsMsg,
             ReceiptsMsg,
             NewPooledTransactionHashesMsg,
             GetPooledTransactionsMsg,
             PooledTransactionsMsg,
             GetBlockMsg,
             PendingEtxsMsg,
             GetOnePendingEtxsMsg,
             PendingEtxsRollupMsg,
             GetOnePendingEtxsRollupMsg]
   \<and> (Kind t = Some c \<and> Kind u = Some c \<longrightarrow> t = u)"
proof -
  have "distinct [StatusMsg,
             NewBlockHashesMsg,
             TransactionsMsg,
             GetBlockHeadersMsg,
             BlockHeadersMsg,
             GetBlockBodiesMsg,
             BlockBodiesMsg,
             NewBlockMsg,
             GetNodeDataMsg,
             NodeDataMsg,
             GetReceiptsMsg,
             ReceiptsMsg,
             NewPooledTransactionHashesMsg,
             GetPooledTransactionsMsg,
             PooledTransactionsMsg,
             GetBlockMsg,
             PendingEtxsMsg,
             GetOnePendingEtxsMsg,
             PendingEtxsRollupMsg,
             GetOnePendingEtxsRollupMsg]"
    by (simp add: msg_code_defs)
  moreover have "Kind t = Some c \<and> Kind u = Some c \<longrightarrow> t = u"
    by (cases t; cases u; simp add: msg_code_defs)
  ultimately show ?thesis
    by blast
qed

theorem C4_codes_distinct_witness:
  "Kind GetBlockPacket = Some 0x0b \<and> Kind GetBlockPacket = Some 0x0b
   \<and> Kind GetNodeDataPacket \<noteq> Some 0x0b"
  using C4_codes_distinct [of GetBlockPacket "0x0b" GetBlockPacket]
    C4_codes_distinct [of GetBlockPacket "0x0b" GetNodeDataPacket]
  by (simp add: msg_code_defs)

text \<open>
  The pre-encoded variant \<^verbatim>\<open>BlockBodiesRLPPacket\<close> is a payload type of the file on
  which neither \<^verbatim>\<open>Name()\<close> nor \<^verbatim>\<open>Kind()\<close> is declared.
\<close>

theorem C9_counterexample:
  "Name BlockBodiesRLPPacket = None \<and> Kind BlockBodiesRLPPacket = None"
  by simp

text \<open>
  C9, amended: each of the nineteen payload types from \<^verbatim>\<open>StatusPacket\<close> to
  \<^verbatim>\<open>PendingEtxsRollupPacket\<close> has a \<^verbatim>\<open>Name()\<close> and a \<^verbatim>\<open>Kind()\<close> that return
  the constants below, fixed by the type alone and so the same for every instance; the
  pre-encoded variants \<^verbatim>\<open>BlockBodiesRLPPacket\<close>, \<^verbatim>\<open>ReceiptsRLPPacket\<close> and
  \<^verbatim>\<open>PooledTransactionsRLPPacket\<close> declare neither method.
\<close>

theorem C9_Name_Kind:
  "map (\<lambda>t. (t, Name t, Kind t))
     [StatusPacket, NewBlockHashesPacket, TransactionsPacket, GetBlockHeadersPacket,
      BlockHeadersPacket, GetBlockBodiesPacket, BlockBodiesPacket, NewBlockPacket,
      GetNodeDataPacket, NodeDataPacket, GetReceiptsPacket, ReceiptsPacket,
      NewPooledTransactionHashesPacket, GetPooledTransactionsPacket, PooledTransactionsPacket,
      GetBlockPacket, GetOnePendingEtxsPacket, PendingEtxsPacket, PendingEtxsRollupPacket,
      BlockBodiesRLPPacket, ReceiptsRLPPacket, PooledTransactionsRLPPacket]
   = [(StatusPacket, Some ''Status'', Some 0x00),
      (NewBlockHashesPacket, Some ''NewBlockHashes'', Some 0x01),
      (TransactionsPacket, Some ''Transactions'', Some 0x02),
      (GetBlockHeadersPacket, Some ''GetBlockHeaders'', Some 0x03),
      (BlockHeadersPacket, Some ''BlockHeaders'', Some 0x04),
      (GetBlockBodiesPacket, Some ''GetBlockBodies'', Some 0x05),
      (BlockBodiesPacket, Some ''BlockBodies'', Some 0x06),
      (NewBlockPacket, Some ''NewBlock'', Some 0x07),
      (GetNodeDataPacket, Some ''GetNodeData'', Some 0x0d),
      (NodeDataPacket, Some ''NodeData'', Some 0x0e),
      (GetReceiptsPacket, Some ''GetReceipts'', Some 0x0f),
      (ReceiptsPacket, Some ''Receipts'', Some 0x10),
      (NewPooledTransactionHashesPacket, Some ''NewPooledTransactionHashes'', Some 0x08),
      (GetPooledTransactionsPacket, Some ''GetPooledTransactions'', Some 0x09),
      (PooledTransactionsPacket, Some ''PooledTransactions'', Some 0x0a),
      (GetBlockPacket, Some ''GetBlock'', Some 0x0b),
      (GetOnePendingEtxsPacket, Some ''GetOnePendingEtxs'', Some 0x12),
      (PendingEtxsPacket, Some ''PendingEtxs'', Some 0x11),
      (PendingEtxsRollupPacket, Some ''PendingEtxsManifest'', Some 0x13),
      (BlockBodiesRLPPacket, None, None),
      (ReceiptsRLPPacket, None, None),
      (PooledTransactionsRLPPacket, None, None)]"
  by (simp add: msg_code_defs)

text \<open>
  \<^verbatim>\<open>GetOnePendingEtxsRollupPacket\<close> has a kind code of its own,
  \<^verbatim>\<open>GetOnePendingEtxsRollupMsg\<close>, and an envelope, but the file declares no
  \<^verbatim>\<open>Name()\<close> and no \<^verbatim>\<open>Kind()\<close> on it, unlike on
  \<^verbatim>\<open>GetOnePendingEtxsPacket\<close> next to it.
\<close>

lemma GetOnePendingEtxsRollupPacket_no_methods:
  "Name GetOnePendingEtxsRollupPacket = None \<and> Kind GetOnePendingEtxsRollupPacket = None
   \<and> Name GetOnePendingEtxsPacket = Some ''GetOnePendingEtxs''
   \<and> Kind GetOnePendingEtxsPacket = Some GetOnePendingEtxsMsg"
  by simp

subsection \<open>Envelopes\<close>

text \<open>
  C6: for each of the eighteen envelopes of eth/66, the envelope built from a request
  identifier \<open>r\<close> and a payload \<open>p\<close> gives back \<open>r\<close> as its \<^verbatim>\<open>RequestId\<close> and
  \<open>p\<close>, unchanged, as its embedded payload; and every envelope is the one built from its
  own \<^verbatim>\<open>RequestId\<close> and its own payload: it holds the identifier in front of the payload
  and nothing else.
\<close>

theorem C6_envelope:
  "(\<forall>r p. GetBlockHeadersPacket66.RequestId \<lparr>GetBlockHeadersPacket66.RequestId = r, GetBlockHeadersPacket = p\<rparr> = r
          \<and> GetBlockHeadersPacket66.GetBlockHeadersPacket \<lparr>GetBlockHeadersPacket66.RequestId = r, GetBlockHeadersPacket = p\<rparr> = p)
   \<and> (\<forall>e. \<lparr>GetBlockHeadersPacket66.RequestId = GetBlockHeadersPacket66.RequestId e, GetBlockHeadersPacket = GetBlockHeadersPacket66.GetBlockHeadersPacket e\<rparr> = e)
   \<and> (\<forall>r p. BlockHeadersPacket66.RequestId \<lparr>BlockHeadersPacket66.RequestId = r, BlockHeadersPacket = p\<rparr> = r
          \<and> BlockHeadersPacket66.BlockHeadersPacket \<lparr>BlockHeadersPacket66.RequestId = r, BlockHeadersPacket = p\<rparr> = p)
   \<and> (\<forall>e. \<lparr>BlockHeadersPacket66.RequestId = BlockHeadersPacket66.RequestId e, BlockHeadersPacket = BlockHeadersPacket66.BlockHeadersPacket e\<rparr> = e)
   \<and> (\<forall>r p. GetBlockBodiesPacket66.RequestId \<lparr>GetBlockBodiesPacket66.RequestId = r, GetBlockBodiesPacket = p\<rparr> = r
          \<and> GetBlockBodiesPacket66.GetBlockBodiesPacket \<lparr>GetBlockBodiesPacket66.RequestId = r, GetBlockBodiesPacket = p\<rparr> = p)
   \<and> (\<forall>e. \<lparr>GetBlockBodiesPacket66.RequestId = GetBlockBodiesPacket66.RequestId e, GetBlockBodiesPacket = GetBlockBodiesPacket66.GetBlockBodiesPacket e\<rparr> = e)
   \<and> (\<forall>r p. BlockBodiesPacket66.RequestId \<lparr>BlockBodiesPacket66.RequestId = r, BlockBodiesPacket = p\<rparr> = r
          \<and> BlockBodiesPacket66.BlockBodiesPacket \<lparr>BlockBodiesPacket66.RequestId = r, BlockBodiesPacket = p\<rparr> = p)
   \<and> (\<forall>e. \<lparr>BlockBodiesPacket66.RequestId = BlockBodiesPacket66.RequestId e, BlockBodiesPacket = BlockBodiesPacket66.BlockBodiesPacket e\<rparr> = e)
   \<and> (\<forall>r p. BlockBodiesRLPPacket66.RequestId \<lparr>BlockBodiesRLPPacket66.RequestId = r, BlockBodiesRLPPacket = p\<rparr> = r
          \<and> BlockBodiesRLPPacket66.BlockBodiesRLPPacket \<lparr>BlockBodiesRLPPacket66.RequestId = r, BlockBodiesRLPPacket = p\<rparr> = p)
   \<and> (\<forall>e. \<lparr>BlockBodiesRLPPacket66.RequestId = BlockBodiesRLPPacket66.RequestId e, BlockBodiesRLPPacket = BlockBodiesRLPPacket66.BlockBodiesRLPPacket e\<rparr> = e)
   \<and> (\<forall>r p. GetNodeDataPacket66.RequestId \<lparr>GetNodeDataPacket66.RequestId = r, GetNodeDataPacket = p\<rparr> = r
          \<and> GetNodeDataPacket66.GetNodeDataPacket \<lparr>GetNodeDataPacket66.RequestId = r, GetNodeDataPacket = p\<rparr> = p)
   \<and> (\<forall>e. \<lparr>GetNodeDataPacket66.RequestId = GetNodeDataPacket66.RequestId e, GetNodeDataPacket = GetNodeDataPacket66.GetNodeDataPacket e\<rparr> = e)
   \<and> (\<forall>r p. NodeDataPacket66.RequestId \<lparr>NodeDataPacket66.RequestId = r, NodeDataPacket = p\<rparr> = r
          \<and> NodeDataPacket66.NodeDataPacket \<lparr>NodeDataPacket66.RequestId = r, NodeDataPacket = p\<rparr> = p)
   \<and> (\<forall>e. \<lparr>NodeDataPacket66.RequestId = NodeDataPacket66.RequestId e, NodeDataPacket = NodeDataPacket66.NodeDataPacket e\<rparr> = e)
   \<and> (\<forall>r p. GetReceiptsPacket66.RequestId \<lparr>GetReceiptsPacket66.RequestId = r, GetReceiptsPacket = p\<rparr> = r
          \<and> GetReceiptsPacket66.GetReceiptsPacket \<lparr>GetReceiptsPacket66.RequestId = r, GetReceiptsPacket = p\<rparr> = p)
   \<and> (\<forall>e. \<lparr>GetReceiptsPacket66.RequestId = GetReceiptsPacket66.RequestId e, GetReceiptsPacket = GetReceiptsPacket66.GetReceiptsPacket e\<rparr> = e)
   \<and> (\<forall>r p. ReceiptsPacket66.RequestId \<lparr>ReceiptsPacket66.RequestId = r, ReceiptsPacket = p\<rparr> = r
          \<and> ReceiptsPacket66.ReceiptsPacket \<lparr>ReceiptsPacket66.RequestId = r, ReceiptsPacket = p\<rparr> = p)
   \<and> (\<forall>e. \<lparr>ReceiptsPacket66.RequestId = ReceiptsPacket66.RequestId e, ReceiptsPacket = ReceiptsPacket66.ReceiptsPacket e\<rparr> = e)
   \<and> (\<forall>r p. ReceiptsRLPPacket66.RequestId \<lparr>ReceiptsRLPPacket66.RequestId = r, ReceiptsRLPPacket = p\<rparr> = r
          \<and> ReceiptsRLPPacket66.ReceiptsRLPPacket \<lparr>ReceiptsRLPPacket66.RequestId = r, ReceiptsRLPPacket = p\<rparr> = p)
   \<and> (\<forall>e. \<lparr>ReceiptsRLPPacket66.RequestId = ReceiptsRLPPacket66.RequestId e, ReceiptsRLPPacket = ReceiptsRLPPacket66.ReceiptsRLPPacket e\<rparr> = e)
   \<and> (\<forall>r p. GetPooledTransactionsPacket66.RequestId \<lparr>GetPooledTransactionsPacket66.RequestId = r, GetPooledTransactionsPacket = p\<rparr> = r
          \<and> GetPooledTransactionsPacket66.GetPooledTransactionsPacket \<lparr>GetPooledTransactionsPacket66.RequestId = r, GetPooledTransactionsPacket = p\<rparr> = p)
   \<and> (\<forall>e. \<lparr>GetPooledTransactionsPacket66.RequestId = GetPooledTransactionsPacket66.RequestId e, GetPooledTransactionsPacket = GetPooledTransactionsPacket66.GetPooledTransactionsPacket e\<rparr> = e)
   \<and> (\<forall>r p. PooledTransactionsPacket66.RequestId \<lparr>PooledTransactionsPacket66.RequestId = r, PooledTransactionsPacket = p\<rparr> = r
          \<and> PooledTransactionsPacket66.PooledTransactionsPacket \<lparr>PooledTransactionsPacket66.RequestId = r, PooledTransactionsPacket = p\<rparr> = p)
   \<and> (\<forall>e. \<lparr>PooledTransactionsPacket66.RequestId = PooledTransactionsPacket66.RequestId e, PooledTransactionsPacket = PooledTransactionsPacket66.PooledTransactionsPacket e\<rparr> = e)
   \<and> (\<forall>r p. PooledTransactionsRLPPacket66.RequestId \<lparr>PooledTransactionsRLPPacket66.RequestId = r, PooledTransactionsRLPPacket = p\<rparr> = r
          \<and> PooledTransactionsRLPPacket66.PooledTransactionsRLPPacket \<lparr>PooledTransactionsRLPPacket66.RequestId = r, PooledTransactionsRLPPacket = p\<rparr> = p)
   \<and> (\<forall>e. \<lparr>PooledTransactionsRLPPacket66.RequestId = PooledTransactionsRLPPacket66.RequestId e, PooledTransactionsRLPPacket = PooledTransactionsRLPPacket66.PooledTransactionsRLPPacket e\<rparr> = e)
   \<and> (\<forall>r p. GetBlockPacket66.RequestId \<lparr>GetBlockPacket66.RequestId = r, GetBlockPacket = p\<rparr> = r
          \<and> GetBlockPacket66.GetBlockPacket \<lparr>GetBlockPacket66.RequestId = r, GetBlockPacket = p\<rparr> = p)
   \<and> (\<forall>e. \<lparr>GetBlockPacket66.RequestId = GetBlockPacket66.RequestId e, GetBlockPacket = GetBlockPacket66.GetBlockPacket e\<rparr> = e)
   \<and> (\<forall>r p. GetOnePendingEtxsPacket66.RequestId \<lparr>GetOnePendingEtxsPacket66.RequestId = r, GetOnePendingEtxsPacket = p\<rparr> = r
          \<and> GetOnePendingEtxsPacket66.GetOnePendingEtxsPacket \<lparr>GetOnePendingEtxsPacket66.RequestId = r, GetOnePendingEtxsPacket = p\<rparr> = p)
   \<and> (\<forall>e. \<lparr>GetOnePendingEtxsPacket66.RequestId = GetOnePendingEtxsPacket66.RequestId e, GetOnePendingEtxsPacket = GetOnePendingEtxsPacket66.GetOnePendingEtxsPacket e\<rparr> = e)
   \<and> (\<forall>r p. GetOnePendingEtxsRollupPacket66.RequestId \<lparr>GetOnePendingEtxsRollupPacket66.RequestId = r, GetOnePendingEtxsRollupPacket = p\<rparr> = r
          \<and> GetOnePendingEtxsRollupPacket66.GetOnePendingEtxsRollupPacket \<lparr>GetOnePendingEtxsRollupPacket66.RequestId = r, GetOnePendingEtxsRollupPacket = p\<rparr> = p)
   \<and> (\<forall>e. \<lparr>GetOnePendingEtxsRollupPacket66.RequestId = GetOnePendingEtxsRollupPacket66.RequestId e, GetOnePendingEtxsRollupPacket = GetOnePendingEtxsRollupPacket66.GetOnePendingEtxsRollupPacket e\<rparr> = e)
   \<and> (\<forall>r p. PendingEtxsPacket66.RequestId \<lparr>PendingEtxsPacket66.RequestId = r, PendingEtxsPacket = p\<rparr> = r
          \<and> PendingEtxsPacket66.PendingEtxsPacket \<lparr>PendingEtxsPacket66.RequestId = r, PendingEtxsPacket = p\<rparr> = p)
   \<and> (\<forall>e. \<lparr>PendingEtxsPacket66.RequestId = PendingEtxsPacket66.RequestId e, PendingEtxsPacket = PendingEtxsPacket66.PendingEtxsPacket e\<rparr> = e)
   \<and> (\<forall>r p. PendingEtxsRollupPacket66.RequestId \<lparr>PendingEtxsRollupPacket66.RequestId = r, PendingEtxsRollupPacket = p\<rparr> = r
          \<and> PendingEtxsRollupPacket66.PendingEtxsRollupPacket \<lparr>PendingEtxsRollupPacket66.RequestId = r, PendingEtxsRollupPacket = p\<rparr> = p)
   \<and> (\<forall>e. \<lparr>PendingEtxsRollupPacket66.RequestId = PendingEtxsRollupPacket66.RequestId e, PendingEtxsRollupPacket = PendingEtxsRollupPacket66.PendingEtxsRollupPacket e\<rparr> = e)"
  by simp

theorem C6_envelope_witness:
  "GetBlockHeadersPacket66.RequestId
     \<lparr>GetBlockHeadersPacket66.RequestId = 7,
      GetBlockHeadersPacket =
        Some \<lparr>Origin = \<lparr>HashOrNumber.Hash = 0, Number = 5\<rparr>, Amount = 10, Dom = False,
              Reverse = True, To = 0, Skip = 0\<rparr>\<rparr> = 7
   \<and> GetBlockHeadersPacket66.GetBlockHeadersPacket
     \<lparr>GetBlockHeadersPacket66.RequestId = 7,
      GetBlockHeadersPacket =
        Some \<lparr>Origin = \<lparr>HashOrNumber.Hash = 0, Number = 5\<rparr>, Amount = 10, Dom = False,
              Reverse = True, To = 0, Skip = 0\<rparr>\<rparr>
     = Some \<lparr>Origin = \<lparr>HashOrNumber.Hash = 0, Number = 5\<rparr>, Amount = 10, Dom = False,
             Reverse = True, To = 0, Skip = 0\<rparr>
   \<and> GetBlockBodiesPacket66.GetBlockBodiesPacket
     \<lparr>GetBlockBodiesPacket66.RequestId = 8, GetBlockBodiesPacket = [0xAB, 0xCD]\<rparr> = [0xAB, 0xCD]"
  using C6_envelope by simp

subsection \<open>The generic codec: decoding what was encoded\<close>

lemma be_val_snoc: "be_val (bs @ [b]) = be_val bs * 256 + unat b"
  by (simp add: be_val_def)

lemma length_be_bytes: "length (be_bytes k n) = k"
  by (induction k arbitrary: n) simp_all

lemma unat_byte_of_nat: "unat (of_nat n :: byte) = n mod 256"
  by (simp add: unat_of_nat)

lemma be_val_be_bytes: "be_val (be_bytes k n) = n mod 256 ^ k"
proof (induction k arbitrary: n)
  case 0
  then show ?case by (simp add: be_val_def)
next
  case (Suc k)
  have "be_val (be_bytes (Suc k) n) = (n div 256) mod 256 ^ k * 256 + n mod 256"
    by (simp add: be_val_snoc Suc.IH unat_byte_of_nat)
  also have "\<dots> = n mod 256 ^ Suc k"
    by (simp add: mod_mult2_eq)
  finally show ?case .
qed

lemma BytesToHash_Hash_Bytes: "BytesToHash (Hash_Bytes h) = h"
proof -
  have "unat h < 2 ^ 256"
    using unsigned_less [of h, where 'a = nat] by simp
  then have "unat h mod 256 ^ 32 = unat h"
    by simp
  then show ?thesis
    by (simp add: BytesToHash_def Hash_Bytes_def be_val_be_bytes)
qed

lemma be_val_putint: "be_val (putint i) = i"
proof (induction i rule: putint.induct)
  case (1 i)
  show ?case
  proof (cases "i < 256")
    case True
    then show ?thesis
      by (simp add: putint.simps [of i] be_val_def unat_byte_of_nat)
  next
    case False
    then show ?thesis
      using "1.IH" by (simp add: putint.simps [of i] be_val_snoc unat_byte_of_nat)
  qed
qed

lemma putint_nonempty: "putint i \<noteq> []"
  by (simp add: putint.simps [of i])

lemma length_putint_le: "0 < k \<Longrightarrow> i < 256 ^ k \<Longrightarrow> length (putint i) \<le> k"
proof (induction i arbitrary: k rule: putint.induct)
  case (1 i)
  show ?case
  proof (cases "i < 256")
    case True
    then show ?thesis
      using "1.prems" by (simp add: putint.simps [of i])
  next
    case False
    from "1.prems" obtain j where k: "k = Suc j"
      by (cases k) auto
    have j: "0 < j"
    proof (rule ccontr)
      assume "\<not> 0 < j"
      with k "1.prems" False show False by simp
    qed
    from "1.prems" k have "i div 256 < 256 ^ j"
      by (simp add: less_mult_imp_div_less)
    with "1.IH" [OF False j] have "length (putint (i div 256)) \<le> j" .
    then show ?thesis
      using False k by (simp add: putint.simps [of i])
  qed
qed

lemma hd_putint: "0 < i \<Longrightarrow> hd (putint i) \<noteq> 0"
proof (induction i rule: putint.induct)
  case (1 i)
  show ?case
  proof (cases "i < 256")
    case True
    with "1.prems" have "unat (of_nat i :: byte) \<noteq> 0"
      by (simp add: unat_byte_of_nat)
    then have "(of_nat i :: byte) \<noteq> 0"
      by auto
    then show ?thesis
      using True by (simp add: putint.simps [of i])
  next
    case False
    then have "0 < i div 256"
      by (simp add: div_greater_zero_iff)
    with "1.IH" [OF False] have "hd (putint (i div 256)) \<noteq> 0" .
    then show ?thesis
      using False by (simp add: putint.simps [of i] putint_nonempty)
  qed
qed

lemma unat_ucast_byte: "unat (ucast (n :: uint64) :: byte) = unat n mod 256"
  by (simp add: unsigned_ucast_eq take_bit_eq_mod)
lemma ucast_byte_uint64: "unat (ucast (b :: byte) :: uint64) = unat b"
proof -
  have "unat b < 2 ^ 8"
    using unsigned_less [of b, where 'a = nat] by simp
  then have "unat b mod 2 ^ 64 = unat b"
    by simp
  then show ?thesis
    by (simp add: unsigned_ucast_eq take_bit_eq_mod)
qed
lemma ucast_ucast_small:
  assumes "n < 128" shows "ucast (ucast (n::uint64) :: byte) = n"
proof -
  have "unat n < 128" using assms by (simp add: word_less_nat_alt)
  then have "unat (ucast (ucast n :: byte) :: uint64) = unat n"
    by (simp add: ucast_byte_uint64 unat_ucast_byte)
  then show ?thesis by (simp only: word_unat_eq_iff)
qed

lemma putint_uint64:
  fixes n :: uint64
  assumes "\<not> n < 128"
  defines "bs \<equiv> putint (unat n)"
  shows "1 \<le> length bs" and "length bs \<le> 8" and "be_val bs = unat n"
    and "hd bs \<noteq> 0" and "128 \<le> unat n"
proof -
  show "1 \<le> length bs"
    using putint_nonempty [of "unat n"] by (simp add: bs_def Suc_le_eq)
  have "unat n < 2 ^ 64"
    using unsigned_less [of n, where 'a = nat] by simp
  then have "unat n < 256 ^ 8"
    by simp
  then show "length bs \<le> 8"
    unfolding bs_def by (intro length_putint_le) simp_all
  show "be_val bs = unat n"
    by (simp add: bs_def be_val_putint)
  show n: "128 \<le> unat n"
    using assms(1) by (simp add: word_less_nat_alt)
  then show "hd bs \<noteq> 0"
    unfolding bs_def by (intro hd_putint) simp
qed

lemma string_tag:
  assumes "len \<le> 55"
  shows "\<not> (0x80 + of_nat len :: byte) < 0x80" and "(0x80 + of_nat len :: byte) < 0xB8"
    and "unat ((0x80 + of_nat len :: byte) - 0x80) = len"
proof -
  have u: "unat (0x80 + of_nat len :: byte) = 128 + len"
    using assms by (simp add: unat_word_ariths unat_of_nat)
  show "\<not> (0x80 + of_nat len :: byte) < 0x80"
    by (simp add: word_less_nat_alt u)
  show "(0x80 + of_nat len :: byte) < 0xB8"
    using assms by (simp add: word_less_nat_alt u)
  show "unat ((0x80 + of_nat len :: byte) - 0x80) = len"
    using assms by (simp add: unat_of_nat)
qed

lemma header_encodeUint_zero:
  "header \<lparr>input = encodeUint 0 @ rest, inList = inl\<rparr> = Inr (String, 0, 0, rest)"
  by (simp add: header_def encodeUint_def)

lemma header_encodeUint_small:
  fixes n :: uint64
  assumes "n \<noteq> 0" and "n < 128"
  shows "header \<lparr>input = encodeUint n @ rest, inList = inl\<rparr> = Inr (Byte, 0, ucast n, rest)"
proof -
  have "unat n < 128"
    using assms(2) by (simp add: word_less_nat_alt)
  then have "unat (ucast n :: byte) < 128"
    by (simp add: unat_ucast_byte)
  then have "(ucast n :: byte) < 0x80"
    by (simp add: word_less_nat_alt)
  then show ?thesis
    using assms by (simp add: header_def encodeUint_def)
qed

lemma header_encodeUint_large:
  fixes n :: uint64
  assumes "\<not> n < 128"
  shows "header \<lparr>input = encodeUint n @ rest, inList = inl\<rparr> =
           Inr (String, length (putint (unat n)), 0, putint (unat n) @ rest)"
proof -
  have len: "length (putint (unat n)) \<le> 55"
    using putint_uint64(2) [OF assms] by simp
  have "n \<noteq> 0"
    using assms by auto
  then show ?thesis
    using assms string_tag [OF len]
    by (simp add: header_def encodeUint_def Let_def)
qed

lemma Stream_Kind_encodeUint:
  "\<exists>kind sz. Stream_Kind \<lparr>input = encodeUint n @ rest, inList = inl\<rparr> = Inr (kind, sz) \<and> sz \<le> 8"
proof (cases "n = 0")
  case True
  then show ?thesis
    by (simp add: Stream_Kind_def header_encodeUint_zero)
next
  case False
  show ?thesis
  proof (cases "n < 128")
    case True
    then show ?thesis
      using False by (simp add: Stream_Kind_def header_encodeUint_small)
  next
    case False
    then show ?thesis
      using putint_uint64(2) [OF False]
      by (simp add: Stream_Kind_def header_encodeUint_large)
  qed
qed

lemma readUint_putint:
  fixes n :: uint64
  assumes "\<not> n < 128"
  shows "readUint (length (putint (unat n))) (putint (unat n) @ rest) = Inr (unat n, rest)"
proof (cases "length (putint (unat n)) = 1")
  case True
  then obtain b where b: "putint (unat n) = [b]"
    by (cases "putint (unat n)") auto
  with putint_uint64(3) [OF assms] have "unat b = unat n"
    by (simp add: be_val_def)
  then show ?thesis
    using b by (simp add: readUint_def)
next
  case False
  with putint_uint64(1) [OF assms] have "2 \<le> length (putint (unat n))"
    by simp
  moreover have "putint (unat n) \<noteq> []"
    by (rule putint_nonempty)
  ultimately show ?thesis
    using False putint_uint64(3,4) [OF assms]
    by (simp add: readUint_def)
qed

lemma Stream_Decode_uint64_encodeUint:
  "Stream_Decode_uint64 \<lparr>input = encodeUint n @ rest, inList = inl\<rparr> =
     Inr (n, \<lparr>input = rest, inList = inl\<rparr>)"
proof (cases "n = 0")
  case True
  then show ?thesis
    by (simp add: Stream_Decode_uint64_def header_encodeUint_zero readUint_def)
next
  case False
  show ?thesis
  proof (cases "n < 128")
    case True
    have "ucast (ucast n :: byte) = n"
      using True by (rule ucast_ucast_small)
    moreover have "(ucast n :: byte) \<noteq> 0"
      using False True
      by (metis calculation ucast_0)
    ultimately show ?thesis
      using False True by (simp add: Stream_Decode_uint64_def header_encodeUint_small)
  next
    case False
    then show ?thesis
      using putint_uint64(2,5) [OF False]
      by (simp add: Stream_Decode_uint64_def header_encodeUint_large readUint_putint)
  qed
qed

lemma header_encodeHash:
  "header \<lparr>input = encodeHash h @ rest, inList = inl\<rparr> = Inr (String, 32, 0, Hash_Bytes h @ rest)"
  by (simp add: header_def encodeHash_def Hash_Bytes_def length_be_bytes)

lemma Stream_Kind_encodeHash:
  "Stream_Kind \<lparr>input = encodeHash h @ rest, inList = inl\<rparr> = Inr (String, 32)"
  by (simp add: Stream_Kind_def header_encodeHash)

lemma Stream_Decode_Hash_encodeHash:
  "Stream_Decode_Hash \<lparr>input = encodeHash h @ rest, inList = inl\<rparr> =
     Inr (h, \<lparr>input = rest, inList = inl\<rparr>)"
proof -
  have "length (Hash_Bytes h) = 32"
    by (simp add: Hash_Bytes_def length_be_bytes)
  then show ?thesis
    by (simp add: Stream_Decode_Hash_def header_encodeHash BytesToHash_Hash_Bytes)
qed

subsection \<open>The origin selector\<close>

text \<open>
  C2: \<^verbatim>\<open>HashOrNumber.EncodeRLP\<close> on the pair (hash, number): when the hash is the zero
  hash it is \<^verbatim>\<open>rlp.Encode\<close> of the number; when neither the hash nor the number is zero
  it returns the error that names both and writes nothing; when the hash is not zero and
  the number is, it is \<^verbatim>\<open>rlp.Encode\<close> of the hash.
\<close>

theorem C2_EncodeRLP:
  "(HashOrNumber.Hash hn = 0 \<longrightarrow> EncodeRLP hn w = rlp_Encode_uint64 w (HashOrNumber.Number hn))
   \<and> (HashOrNumber.Hash hn \<noteq> 0 \<and> HashOrNumber.Number hn \<noteq> 0 \<longrightarrow>
        EncodeRLP hn w = (Some (errBothOrigin (HashOrNumber.Hash hn) (HashOrNumber.Number hn)), w))
   \<and> (HashOrNumber.Hash hn \<noteq> 0 \<and> HashOrNumber.Number hn = 0 \<longrightarrow>
        EncodeRLP hn w = rlp_Encode_Hash w (HashOrNumber.Hash hn))"
  by (simp add: EncodeRLP_def)

lemma Hash_Bytes_0xAB: "Hash_Bytes 0xAB = replicate 31 0 @ [0xAB]"
  by code_simp

lemma encodeUint_5: "encodeUint 5 = [0x05]"
  by code_simp

lemma encodeUint_1024: "encodeUint 1024 = [0x82, 0x04, 0x00]"
  by code_simp

theorem C2_EncodeRLP_witness:
  "EncodeRLP \<lparr>HashOrNumber.Hash = 0, Number = 5\<rparr> \<lparr>written = [], broken = None\<rparr>
     = (None, \<lparr>written = [0x05], broken = None\<rparr>)
   \<and> EncodeRLP \<lparr>HashOrNumber.Hash = 0xAB, Number = 5\<rparr> \<lparr>written = [], broken = None\<rparr>
     = (Some (errBothOrigin 0xAB 5), \<lparr>written = [], broken = None\<rparr>)
   \<and> EncodeRLP \<lparr>HashOrNumber.Hash = 0xAB, Number = 0\<rparr> \<lparr>written = [], broken = None\<rparr>
     = (None, \<lparr>written = 0xA0 # replicate 31 0 @ [0xAB], broken = None\<rparr>)"
  using C2_EncodeRLP [of "\<lparr>HashOrNumber.Hash = 0, Number = 5\<rparr>" "\<lparr>written = [], broken = None\<rparr>"]
    C2_EncodeRLP [of "\<lparr>HashOrNumber.Hash = 0xAB, Number = 5\<rparr>" "\<lparr>written = [], broken = None\<rparr>"]
    C2_EncodeRLP [of "\<lparr>HashOrNumber.Hash = 0xAB, Number = 0\<rparr>" "\<lparr>written = [], broken = None\<rparr>"]
  by (simp add: rlp_Encode_uint64_def rlp_Encode_Hash_def Write_def encodeUint_5 encodeHash_def
      Hash_Bytes_0xAB)

text \<open>
  C3: \<^verbatim>\<open>HashOrNumber.DecodeRLP\<close> looks at the size \<^verbatim>\<open>Stream.Kind\<close> reports. When
  \<^verbatim>\<open>Kind\<close> fails, it returns that error and changes nothing. At size 32 it sets the
  number to zero and decodes the value as a hash: the result holds that hash and the number
  zero, or the decoder's error is returned with the number already zero. At any other size
  of at most 8 it sets the hash to the zero hash and decodes the value as a number, in the
  same way. At every other size it returns the error of an invalid origin size, and the
  receiver and the stream are as before.
\<close>

theorem C3_DecodeRLP:
  "(Stream_Kind s = Inl err \<longrightarrow> DecodeRLP hn s = (Some err, hn, s))
   \<and> (Stream_Kind s = Inr (kind, 32) \<longrightarrow>
        (case Stream_Decode_Hash s of
           Inl e \<Rightarrow>
             fst (DecodeRLP hn s) = Some e \<and> HashOrNumber.Number (fst (snd (DecodeRLP hn s))) = 0
         | Inr (h, s') \<Rightarrow>
             DecodeRLP hn s = (None, \<lparr>HashOrNumber.Hash = h, Number = 0\<rparr>, s')))
   \<and> (Stream_Kind s = Inr (kind, sz) \<and> sz \<le> 8 \<longrightarrow>
        (case Stream_Decode_uint64 s of
           Inl e \<Rightarrow>
             fst (DecodeRLP hn s) = Some e \<and> HashOrNumber.Hash (fst (snd (DecodeRLP hn s))) = 0
         | Inr (n, s') \<Rightarrow>
             DecodeRLP hn s = (None, \<lparr>HashOrNumber.Hash = 0, Number = n\<rparr>, s')))
   \<and> (Stream_Kind s = Inr (kind, sz) \<and> sz \<noteq> 32 \<and> 8 < sz \<longrightarrow>
        DecodeRLP hn s = (Some (errInvalidOriginSize sz), hn, s))"
  by (auto simp: DecodeRLP_def Let_def split: sum.splits prod.splits)

lemma Stream_Kind_empty_example: "Stream_Kind \<lparr>input = [], inList = True\<rparr> = Inl EOL"
  by code_simp

lemma Stream_Kind_nine_example: "Stream_Kind \<lparr>input = [0x89, 1, 2, 3, 4, 5, 6, 7, 8, 9], inList = True\<rparr> = Inr (String, 9)"
  by code_simp

lemma Stream_Kind_number_example: "Stream_Kind \<lparr>input = [0x82, 0x04, 0x00], inList = True\<rparr> = Inr (String, 2)"
  by code_simp

lemma Stream_Decode_uint64_example: "Stream_Decode_uint64 \<lparr>input = [0x82, 0x04, 0x00], inList = True\<rparr> = Inr (1024, \<lparr>input = [], inList = True\<rparr>)"
  by code_simp

lemma Stream_Kind_hash_example: "Stream_Kind \<lparr>input = 0xA0 # replicate 31 0 @ [0xAB], inList = True\<rparr> = Inr (String, 32)"
  by code_simp

lemma Stream_Decode_Hash_example: "Stream_Decode_Hash \<lparr>input = 0xA0 # replicate 31 0 @ [0xAB], inList = True\<rparr> = Inr (0xAB, \<lparr>input = [], inList = True\<rparr>)"
  by code_simp

lemma Stream_Kind_list_example: "Stream_Kind \<lparr>input = 0xE0 # replicate 32 0, inList = True\<rparr> = Inr (List, 32)"
  by code_simp

lemma Stream_Decode_Hash_list_example: "Stream_Decode_Hash \<lparr>input = 0xE0 # replicate 32 0, inList = True\<rparr> = Inl ErrExpectedString"
  by code_simp

theorem C3_DecodeRLP_witness:
  "DecodeRLP \<lparr>HashOrNumber.Hash = 0xFF, Number = 9\<rparr> \<lparr>input = [], inList = True\<rparr>
     = (Some EOL, \<lparr>HashOrNumber.Hash = 0xFF, Number = 9\<rparr>, \<lparr>input = [], inList = True\<rparr>)
   \<and> DecodeRLP \<lparr>HashOrNumber.Hash = 0xFF, Number = 9\<rparr>
        \<lparr>input = 0xA0 # replicate 31 0 @ [0xAB], inList = True\<rparr>
     = (None, \<lparr>HashOrNumber.Hash = 0xAB, Number = 0\<rparr>, \<lparr>input = [], inList = True\<rparr>)
   \<and> fst (DecodeRLP \<lparr>HashOrNumber.Hash = 0xFF, Number = 9\<rparr>
        \<lparr>input = 0xE0 # replicate 32 0, inList = True\<rparr>) = Some ErrExpectedString
   \<and> HashOrNumber.Number (fst (snd (DecodeRLP \<lparr>HashOrNumber.Hash = 0xFF, Number = 9\<rparr>
        \<lparr>input = 0xE0 # replicate 32 0, inList = True\<rparr>))) = 0
   \<and> DecodeRLP \<lparr>HashOrNumber.Hash = 0xFF, Number = 9\<rparr>
        \<lparr>input = [0x82, 0x04, 0x00], inList = True\<rparr>
     = (None, \<lparr>HashOrNumber.Hash = 0, Number = 1024\<rparr>, \<lparr>input = [], inList = True\<rparr>)
   \<and> DecodeRLP \<lparr>HashOrNumber.Hash = 0xFF, Number = 9\<rparr>
        \<lparr>input = [0x89, 1, 2, 3, 4, 5, 6, 7, 8, 9], inList = True\<rparr>
     = (Some (errInvalidOriginSize 9), \<lparr>HashOrNumber.Hash = 0xFF, Number = 9\<rparr>,
        \<lparr>input = [0x89, 1, 2, 3, 4, 5, 6, 7, 8, 9], inList = True\<rparr>)"
  using
    C3_DecodeRLP [where s = "\<lparr>input = [], inList = True\<rparr>" and err = EOL
      and hn = "\<lparr>HashOrNumber.Hash = 0xFF, Number = 9\<rparr>"]
    C3_DecodeRLP [where s = "\<lparr>input = 0xA0 # replicate 31 0 @ [0xAB], inList = True\<rparr>"
      and kind = String and hn = "\<lparr>HashOrNumber.Hash = 0xFF, Number = 9\<rparr>"]
    C3_DecodeRLP [where s = "\<lparr>input = 0xE0 # replicate 32 0, inList = True\<rparr>"
      and kind = List and hn = "\<lparr>HashOrNumber.Hash = 0xFF, Number = 9\<rparr>"]
    C3_DecodeRLP [where s = "\<lparr>input = [0x82, 0x04, 0x00], inList = True\<rparr>"
      and kind = String and sz = 2 and hn = "\<lparr>HashOrNumber.Hash = 0xFF, Number = 9\<rparr>"]
    C3_DecodeRLP [where s = "\<lparr>input = [0x89, 1, 2, 3, 4, 5, 6, 7, 8, 9], inList = True\<rparr>"
      and kind = String and sz = 9 and hn = "\<lparr>HashOrNumber.Hash = 0xFF, Number = 9\<rparr>"]
  by (simp add: Stream_Kind_empty_example Stream_Kind_nine_example Stream_Kind_number_example Stream_Decode_uint64_example Stream_Kind_hash_example Stream_Decode_Hash_example Stream_Kind_list_example Stream_Decode_Hash_list_example)

text \<open>
  C10: whatever the stream and whatever the receiver held before, when
  \<^verbatim>\<open>HashOrNumber.DecodeRLP\<close> returns no error, the receiver's hash is the zero hash or
  its number is zero.
\<close>

theorem C10_DecodeRLP_union:
  assumes "DecodeRLP hn s = (None, hn', s')"
  shows "HashOrNumber.Hash hn' = 0 \<or> HashOrNumber.Number hn' = 0"
  using assms
  by (auto simp: DecodeRLP_def Let_def split: sum.splits if_splits prod.splits)

lemma DecodeRLP_number_example: "DecodeRLP \<lparr>HashOrNumber.Hash = 0xFF, Number = 9\<rparr> \<lparr>input = [0x82, 0x04, 0x00, 0x01], inList = True\<rparr>
            = (None, \<lparr>HashOrNumber.Hash = 0, Number = 1024\<rparr>, \<lparr>input = [0x01], inList = True\<rparr>)"
  by code_simp

theorem C10_DecodeRLP_union_witness:
  "DecodeRLP \<lparr>HashOrNumber.Hash = 0xFF, Number = 9\<rparr>
       \<lparr>input = [0x82, 0x04, 0x00, 0x01], inList = True\<rparr>
     = (None, \<lparr>HashOrNumber.Hash = 0, Number = 1024\<rparr>, \<lparr>input = [0x01], inList = True\<rparr>)
   \<and> (HashOrNumber.Hash \<lparr>HashOrNumber.Hash = 0, Number = 1024\<rparr> = 0
        \<or> HashOrNumber.Number \<lparr>HashOrNumber.Hash = 0, Number = 1024\<rparr> = 0)"
  using C10_DecodeRLP_union [OF DecodeRLP_number_example] DecodeRLP_number_example by simp

text \<open>
  C1: for every origin selector whose hash is not zero and whose number is zero, or whose
  hash is the zero hash, \<^verbatim>\<open>EncodeRLP\<close> to a working writer returns no error and
  appends bytes \<open>enc\<close>, and \<^verbatim>\<open>DecodeRLP\<close> on a stream that starts with \<open>enc\<close>
  returns no error, leaves the receiver equal to the selector that was encoded, whatever
  it held before, and leaves the stream behind \<open>enc\<close>.
\<close>

theorem C1_roundtrip:
  fixes hn :: HashOrNumber
  assumes valid: "HashOrNumber.Hash hn \<noteq> 0 \<and> HashOrNumber.Number hn = 0 \<or> HashOrNumber.Hash hn = 0"
    and writer: "broken w = None"
  shows "\<exists>enc. EncodeRLP hn w = (None, w\<lparr>written := written w @ enc\<rparr>)
           \<and> (\<forall>prior rest inl.
                DecodeRLP prior \<lparr>input = enc @ rest, inList = inl\<rparr> =
                  (None, hn, \<lparr>input = rest, inList = inl\<rparr>))"
proof (cases "HashOrNumber.Hash hn = 0")
  case True
  have enc: "EncodeRLP hn w = (None, w\<lparr>written := written w @ encodeUint (HashOrNumber.Number hn)\<rparr>)"
    using True writer by (simp add: EncodeRLP_def rlp_Encode_uint64_def Write_def)
  have dec: "DecodeRLP prior \<lparr>input = encodeUint (HashOrNumber.Number hn) @ rest, inList = inl\<rparr> =
      (None, hn, \<lparr>input = rest, inList = inl\<rparr>)" for prior :: HashOrNumber and rest inl
  proof -
    obtain kind sz where
      "Stream_Kind \<lparr>input = encodeUint (HashOrNumber.Number hn) @ rest, inList = inl\<rparr> = Inr (kind, sz)"
      and "sz \<le> 8"
      using Stream_Kind_encodeUint by blast
    then show ?thesis
      using True by (simp add: DecodeRLP_def Let_def Stream_Decode_uint64_encodeUint)
  qed
  from enc dec show ?thesis
    by blast
next
  case False
  with valid have num: "HashOrNumber.Number hn = 0"
    by simp
  have enc: "EncodeRLP hn w = (None, w\<lparr>written := written w @ encodeHash (HashOrNumber.Hash hn)\<rparr>)"
    using False num writer by (simp add: EncodeRLP_def rlp_Encode_Hash_def Write_def)
  have dec: "DecodeRLP prior \<lparr>input = encodeHash (HashOrNumber.Hash hn) @ rest, inList = inl\<rparr> =
      (None, hn, \<lparr>input = rest, inList = inl\<rparr>)" for prior :: HashOrNumber and rest inl
    using num
    by (simp add: DecodeRLP_def Let_def Stream_Kind_encodeHash Stream_Decode_Hash_encodeHash)
  from enc dec show ?thesis
    by blast
qed

theorem C1_roundtrip_witness:
  "(\<exists>enc. EncodeRLP \<lparr>HashOrNumber.Hash = 0, Number = 1024\<rparr> \<lparr>written = [], broken = None\<rparr>
            = (None, \<lparr>written = enc, broken = None\<rparr>)
      \<and> DecodeRLP \<lparr>HashOrNumber.Hash = 0xFF, Number = 9\<rparr> \<lparr>input = enc @ [0x01], inList = True\<rparr>
            = (None, \<lparr>HashOrNumber.Hash = 0, Number = 1024\<rparr>, \<lparr>input = [0x01], inList = True\<rparr>))
   \<and> (\<exists>enc. EncodeRLP \<lparr>HashOrNumber.Hash = 0xAB, Number = 0\<rparr> \<lparr>written = [], broken = None\<rparr>
            = (None, \<lparr>written = enc, broken = None\<rparr>)
      \<and> DecodeRLP \<lparr>HashOrNumber.Hash = 0xFF, Number = 9\<rparr> \<lparr>input = enc @ [0xC0], inList = False\<rparr>
            = (None, \<lparr>HashOrNumber.Hash = 0xAB, Number = 0\<rparr>, \<lparr>input = [0xC0], inList = False\<rparr>))"
proof -
  have w: "broken \<lparr>written = [], broken = None\<rparr> = None"
    by simp
  have v1: "HashOrNumber.Hash \<lparr>HashOrNumber.Hash = 0, Number = 1024\<rparr> \<noteq> 0
        \<and> HashOrNumber.Number \<lparr>HashOrNumber.Hash = 0, Number = 1024\<rparr> = 0
      \<or> HashOrNumber.Hash \<lparr>HashOrNumber.Hash = 0, Number = 1024\<rparr> = 0"
    by simp
  have v2: "HashOrNumber.Hash \<lparr>HashOrNumber.Hash = 0xAB, Number = 0\<rparr> \<noteq> 0
        \<and> HashOrNumber.Number \<lparr>HashOrNumber.Hash = 0xAB, Number = 0\<rparr> = 0
      \<or> HashOrNumber.Hash \<lparr>HashOrNumber.Hash = 0xAB, Number = 0\<rparr> = 0"
    by simp
  from C1_roundtrip [OF v1 w] obtain enc1 where
    "EncodeRLP \<lparr>HashOrNumber.Hash = 0, Number = 1024\<rparr> \<lparr>written = [], broken = None\<rparr>
       = (None, \<lparr>written = enc1, broken = None\<rparr>)"
    and "DecodeRLP \<lparr>HashOrNumber.Hash = 0xFF, Number = 9\<rparr> \<lparr>input = enc1 @ [0x01], inList = True\<rparr>
       = (None, \<lparr>HashOrNumber.Hash = 0, Number = 1024\<rparr>, \<lparr>input = [0x01], inList = True\<rparr>)"
    by auto
  moreover from C1_roundtrip [OF v2 w] obtain enc2 where
    "EncodeRLP \<lparr>HashOrNumber.Hash = 0xAB, Number = 0\<rparr> \<lparr>written = [], broken = None\<rparr>
       = (None, \<lparr>written = enc2, broken = None\<rparr>)"
    and "DecodeRLP \<lparr>HashOrNumber.Hash = 0xFF, Number = 9\<rparr> \<lparr>input = enc2 @ [0xC0], inList = False\<rparr>
       = (None, \<lparr>HashOrNumber.Hash = 0xAB, Number = 0\<rparr>, \<lparr>input = [0xC0], inList = False\<rparr>)"
    by auto
  ultimately show ?thesis
    by auto
qed

subsection \<open>The size cap\<close>

text \<open>
  C8: the cap \<^verbatim>\<open>maxMessageSize\<close> is 10 * 1024 * 1024 bytes; a message of any code whose
  size is above the cap is answered with \<^verbatim>\<open>errMsgTooLarge\<close> whatever the decoding
  would do with it; and \<^verbatim>\<open>errMsgTooLarge\<close> is an error of its own: the nine errors of
  the file have nine different texts.
\<close>

theorem C8_size_cap:
  "maxMessageSize = 10 * 1024 * 1024
   \<and> (maxMessageSize < Size msg \<longrightarrow> handleMessage decode msg = Inl errMsgTooLarge)
   \<and> distinct (map Error
         [errNoStatusMsg, errMsgTooLarge, errDecode, errInvalidMsgCode,
          errProtocolVersionMismatch, errNetworkIDMismatch, errGenesisMismatch,
          errForkIDRejected, errLocationMismatch])"
  by (simp add: maxMessageSize_def handleMessage_def)

theorem C8_size_cap_witness:
  "maxMessageSize < Size \<lparr>Code = 0x03, Size = 10 * 1024 * 1024 + 1, Payload = []\<rparr>
   \<and> handleMessage (\<lambda>m. Inr (Payload m))
         \<lparr>Code = 0x03, Size = 10 * 1024 * 1024 + 1, Payload = []\<rparr> = Inl errMsgTooLarge
   \<and> handleMessage (\<lambda>m. Inr (Payload m))
         \<lparr>Code = 0x03, Size = 10 * 1024 * 1024, Payload = []\<rparr> = Inr []"
  using C8_size_cap [of "\<lparr>Code = 0x03, Size = 10 * 1024 * 1024 + 1, Payload = []\<rparr>"
      "\<lambda>m. Inr (Payload m)"]
  by (simp add: maxMessageSize_def handleMessage_def)

end
